theory Spec2Isabelle
  imports Complex_Main
begin

section \<open>JavaScript numbers\<close>

text \<open>
  Every numeric value of the engine is a JavaScript Number. The special values the
  source can produce are kept apart: \<open>NaN\<close>, the two infinities and the negative zero
  (\<open>Fin 0\<close> is the positive zero). A finite double is read as the rational it denotes and
  arithmetic on finite values is exact: rounding to 53 bits, overflow to an infinity and
  underflow to zero are not part of the model.
\<close>

datatype jsnum = NaN | PInf | NInf | NZero | Fin rat

fun is_nan :: "jsnum \<Rightarrow> bool" where
  "is_nan NaN = True"
| "is_nan _ = False"

fun is_inf :: "jsnum \<Rightarrow> bool" where
  "is_inf PInf = True"
| "is_inf NInf = True"
| "is_inf _ = False"

fun is_zero :: "jsnum \<Rightarrow> bool" where
  "is_zero NZero = True"
| "is_zero (Fin r) = (r = 0)"
| "is_zero _ = False"

fun is_fin :: "jsnum \<Rightarrow> bool" where
  "is_fin NZero = True"
| "is_fin (Fin r) = True"
| "is_fin _ = False"

text \<open>The rational a finite number denotes (both zeros denote 0).\<close>

fun val :: "jsnum \<Rightarrow> rat" where
  "val (Fin r) = r"
| "val _ = 0"

text \<open>The sign bit.\<close>

fun neg_sign :: "jsnum \<Rightarrow> bool" where
  "neg_sign NInf = True"
| "neg_sign NZero = True"
| "neg_sign (Fin r) = (r < 0)"
| "neg_sign _ = False"

text \<open>A finite result and an infinite one from a sign bit: the bit decides which zero.\<close>

definition mk_fin :: "bool \<Rightarrow> rat \<Rightarrow> jsnum" where
  "mk_fin s r = (if r = 0 then (if s then NZero else Fin 0) else Fin r)"

definition mk_inf :: "bool \<Rightarrow> jsnum" where
  "mk_inf s = (if s then NInf else PInf)"

text \<open>\<open>a * b\<close>\<close>

definition js_mul :: "jsnum \<Rightarrow> jsnum \<Rightarrow> jsnum" where
  "js_mul a b =
     (if is_nan a \<or> is_nan b then NaN
      else if is_inf a \<or> is_inf b then
        (if is_zero a \<or> is_zero b then NaN else mk_inf (neg_sign a \<noteq> neg_sign b))
      else mk_fin (neg_sign a \<noteq> neg_sign b) (val a * val b))"

text \<open>\<open>a / b\<close>: a division by a zero gives an infinity, or \<open>NaN\<close> for \<open>0 / 0\<close>.\<close>

definition js_div :: "jsnum \<Rightarrow> jsnum \<Rightarrow> jsnum" where
  "js_div a b =
     (if is_nan a \<or> is_nan b then NaN
      else if is_inf a then (if is_inf b then NaN else mk_inf (neg_sign a \<noteq> neg_sign b))
      else if is_inf b then mk_fin (neg_sign a \<noteq> neg_sign b) 0
      else if is_zero b then (if is_zero a then NaN else mk_inf (neg_sign a \<noteq> neg_sign b))
      else mk_fin (neg_sign a \<noteq> neg_sign b) (val a / val b))"

text \<open>\<open>a + b\<close>: a zero sum is the negative zero only when both operands are.\<close>

definition js_add :: "jsnum \<Rightarrow> jsnum \<Rightarrow> jsnum" where
  "js_add a b =
     (if is_nan a \<or> is_nan b then NaN
      else if is_inf a then (if is_inf b \<and> a \<noteq> b then NaN else a)
      else if is_inf b then b
      else if a = NZero \<and> b = NZero then NZero
      else Fin (val a + val b))"

fun js_neg :: "jsnum \<Rightarrow> jsnum" where
  "js_neg NaN = NaN"
| "js_neg PInf = NInf"
| "js_neg NInf = PInf"
| "js_neg NZero = Fin 0"
| "js_neg (Fin r) = (if r = 0 then NZero else Fin (- r))"

text \<open>\<open>a - b\<close>\<close>

definition js_sub :: "jsnum \<Rightarrow> jsnum \<Rightarrow> jsnum" where
  "js_sub a b = js_add a (js_neg b)"

text \<open>\<open>a < b\<close> and \<open>a <= b\<close>: false as soon as an operand is \<open>NaN\<close>; the zeros are equal.\<close>

fun js_lt :: "jsnum \<Rightarrow> jsnum \<Rightarrow> bool" where
  "js_lt NaN _ = False"
| "js_lt _ NaN = False"
| "js_lt PInf _ = False"
| "js_lt _ NInf = False"
| "js_lt NInf _ = True"
| "js_lt _ PInf = True"
| "js_lt a b = (val a < val b)"

fun js_le :: "jsnum \<Rightarrow> jsnum \<Rightarrow> bool" where
  "js_le NaN _ = False"
| "js_le _ NaN = False"
| "js_le NInf _ = True"
| "js_le _ PInf = True"
| "js_le PInf _ = False"
| "js_le _ NInf = False"
| "js_le a b = (val a \<le> val b)"

text \<open>\<open>a > b\<close> and \<open>a >= b\<close>\<close>

definition js_gt :: "jsnum \<Rightarrow> jsnum \<Rightarrow> bool" where
  "js_gt a b = js_lt b a"

definition js_ge :: "jsnum \<Rightarrow> jsnum \<Rightarrow> bool" where
  "js_ge a b = js_le b a"

text \<open>\<open>!a\<close> on a number: true for \<open>NaN\<close> and for both zeros.\<close>

definition falsy :: "jsnum \<Rightarrow> bool" where
  "falsy a = (is_nan a \<or> is_zero a)"

fun Math_floor :: "jsnum \<Rightarrow> jsnum" where
  "Math_floor (Fin r) = Fin (of_int \<lfloor>r\<rfloor>)"
| "Math_floor a = a"

text \<open>\<open>Math.max\<close> and \<open>Math.min\<close>: \<open>NaN\<close> as soon as an argument is; \<open>+0\<close> is larger than \<open>-0\<close>.\<close>

definition Math_max :: "jsnum \<Rightarrow> jsnum \<Rightarrow> jsnum" where
  "Math_max a b =
     (if is_nan a \<or> is_nan b then NaN
      else if js_lt a b then b
      else if js_lt b a then a
      else if a = NZero then b else a)"

definition Math_min :: "jsnum \<Rightarrow> jsnum \<Rightarrow> jsnum" where
  "Math_min a b =
     (if is_nan a \<or> is_nan b then NaN
      else if js_lt a b then a
      else if js_lt b a then b
      else if a = NZero then a else b)"

text \<open>
  \<open>Number(x.toFixed(4))\<close>: the magnitude is rounded to four decimals, a tie going up; a
  magnitude of at least \<open>10^21\<close> is printed in full and read back unchanged; a negative
  number that rounds to zero reads back as the negative zero.
\<close>

fun toFixed4 :: "jsnum \<Rightarrow> jsnum" where
  "toFixed4 (Fin r) =
     (if 10 ^ 21 \<le> \<bar>r\<bar> then Fin r
      else let m = of_int \<lfloor>\<bar>r\<bar> * 10 ^ 4 + 1 / 2\<rfloor> / 10 ^ 4
           in mk_fin (r < 0) (if r < 0 then - m else m))"
| "toFixed4 NZero = Fin 0"
| "toFixed4 a = a"

section \<open>risk.js\<close>

text \<open>The four helpers, on numbers; \<open>!x\<close> is \<open>falsy x\<close>.\<close>

definition maxSharesByLiquidity :: "jsnum \<Rightarrow> jsnum \<Rightarrow> jsnum \<Rightarrow> jsnum" where
  "maxSharesByLiquidity advUsd price maxPctAdv =
     (if falsy advUsd \<or> falsy price \<or> js_le advUsd (Fin 0) \<or> js_le price (Fin 0) then Fin 0
      else let usdCap = js_mul advUsd maxPctAdv in Math_floor (js_div usdCap price))"

definition riskScaledShares :: "jsnum \<Rightarrow> jsnum \<Rightarrow> jsnum \<Rightarrow> jsnum \<Rightarrow> jsnum" where
  "riskScaledShares price dailyVol equity targetBps =
     (let vol = (if js_gt dailyVol (Fin 0) then dailyVol else Fin (1 / 10 ^ 8));
          riskBudget = js_mul equity (js_div targetBps (Fin 10000));
          shares = js_div riskBudget (js_mul price vol)
      in Math_max (Fin 0) (Math_floor shares))"

definition computeStop :: "jsnum \<Rightarrow> jsnum \<Rightarrow> jsnum \<Rightarrow> jsnum \<Rightarrow> jsnum" where
  "computeStop entry atr hardStopPct trailingMult =
     (let hard = js_mul entry (js_sub (Fin 1) hardStopPct);
          trailing = js_sub entry (js_mul trailingMult atr)
      in Math_max hard trailing)"

definition shouldExit :: "jsnum \<Rightarrow> jsnum \<Rightarrow> jsnum \<Rightarrow> jsnum \<Rightarrow> bool" where
  "shouldExit last' stopLevel holdingDays timeStopDays =
     (if js_le last' stopLevel then True
      else if js_ge holdingDays timeStopDays then True
      else False)"

section \<open>config.js\<close>

text \<open>
  The settings object. Each numeric field is what \<open>parseFloat\<close> or \<open>parseInt\<close> made of
  an environment variable or of the default, so it can be \<open>NaN\<close>.
\<close>

record Settings =
  maxPositionWeight :: jsnum
  targetRiskBps :: jsnum
  hardStopPct :: jsnum
  trailingAtrMult :: jsnum
  minAdvUsd :: jsnum
  maxPctAdv :: jsnum
  slippageBps :: jsnum
  timeStopDays :: jsnum
  minPrice :: jsnum
  apiRetries :: jsnum
  apiBackoffMs :: jsnum
  simulateMarketData :: bool
  simulatedPrice :: jsnum
  simulatedVolume :: jsnum

text \<open>The settings when no environment variable overrides a default.\<close>

definition default_settings :: Settings where
  "default_settings =
     \<lparr> maxPositionWeight = Fin (1 / 10), targetRiskBps = Fin 15, hardStopPct = Fin (12 / 100),
       trailingAtrMult = Fin 3, minAdvUsd = Fin 100000, maxPctAdv = Fin (5 / 100),
       slippageBps = Fin 40, timeStopDays = Fin 5, minPrice = Fin (1 / 2), apiRetries = Fin 3,
       apiBackoffMs = Fin 500, simulateMarketData = False, simulatedPrice = Fin 1,
       simulatedVolume = Fin 100000 \<rparr>"

section \<open>market.js\<close>

text \<open>
  The adapter with retries and the offline simulation (the repository also holds an
  earlier copy that has neither, with the same parsing). One call of \<open>https.get\<close> ends
  in exactly one of two ways: the request emits \<open>error\<close> (a transport error, or the five
  second timeout that destroys the request), or the response ends with a status code and
  a body. The outcomes of the successive requests are the script the function runs
  against; it returns the effects it performed (the requests and the delays, in order)
  and how its promise settled, or \<open>None\<close> when the script ends while a request is still
  awaited.
\<close>

datatype outcome = NetError string | Response nat string

datatype effect = Get string | Delay jsnum

record quote =
  price :: jsnum
  volume :: jsnum
  advUsd :: jsnum

datatype settled = Resolved quote | Rejected string

text \<open>A parsed JSON value; an object is the list of its own properties.\<close>

datatype json =
  JNull | JBool bool | JNum jsnum | JStr string | JArr "json list" | JObj "(string \<times> json) list"

text \<open>
  What the module takes from the JavaScript runtime without defining it: \<open>JSON.parse\<close>
  (\<open>Inl\<close> the message of the SyntaxError), the conversion of a string to a number, and the
  conversion of an array to a number (\<open>Inl\<close> the message of the TypeError it may throw).
\<close>

record host =
  JSON_parse :: "string \<Rightarrow> string + json"
  StringToNumber :: "string \<Rightarrow> jsnum"
  ArrayToNumber :: "json list \<Rightarrow> string + jsnum"

text \<open>
  \<open>v.k\<close> for a value \<open>v\<close> that is neither null nor undefined and one of the four names
  the module reads (\<open>quoteResponse\<close>, \<open>result\<close>, \<open>regularMarketPrice\<close>,
  \<open>regularMarketVolume\<close>): only an object can have such a property; \<open>None\<close> is
  \<open>undefined\<close>.
\<close>

fun get_prop :: "string \<Rightarrow> json \<Rightarrow> json option" where
  "get_prop k (JObj kvs) = map_of kvs k"
| "get_prop k _ = None"

text \<open>\<open>v?.k\<close>\<close>

definition opt_prop :: "string \<Rightarrow> json option \<Rightarrow> json option" where
  "opt_prop k v = (case v of None \<Rightarrow> None | Some JNull \<Rightarrow> None | Some j \<Rightarrow> get_prop k j)"

text \<open>\<open>v[0]\<close>: the first element of an array, the first character of a string.\<close>

fun index0 :: "json \<Rightarrow> json option" where
  "index0 (JArr xs) = (case xs of [] \<Rightarrow> None | x # _ \<Rightarrow> Some x)"
| "index0 (JStr s) = (case s of [] \<Rightarrow> None | c # _ \<Rightarrow> Some (JStr [c]))"
| "index0 (JObj kvs) = map_of kvs ''0''"
| "index0 _ = None"

text \<open>\<open>v?.[0]\<close>\<close>

definition opt_index0 :: "json option \<Rightarrow> json option" where
  "opt_index0 v = (case v of None \<Rightarrow> None | Some JNull \<Rightarrow> None | Some j \<Rightarrow> index0 j)"

text \<open>The values for which \<open>!v\<close> is false.\<close>

fun truthy :: "json option \<Rightarrow> bool" where
  "truthy None = False"
| "truthy (Some JNull) = False"
| "truthy (Some (JBool b)) = b"
| "truthy (Some (JNum n)) = (if falsy n then False else True)"
| "truthy (Some (JStr s)) = (s \<noteq> [])"
| "truthy (Some _) = True"

text \<open>
  \<open>Number(v)\<close>. An object is converted through its \<open>toString\<close>: the inherited one prints
  \<open>[object Object]\<close>, which is not a number; an own property of that name (never callable
  in parsed JSON) hides it and the conversion throws a TypeError.
\<close>

fun Number :: "host \<Rightarrow> json option \<Rightarrow> string + jsnum" where
  "Number h None = Inr NaN"
| "Number h (Some JNull) = Inr (Fin 0)"
| "Number h (Some (JBool b)) = Inr (Fin (if b then 1 else 0))"
| "Number h (Some (JNum n)) = Inr n"
| "Number h (Some (JStr s)) = Inr (StringToNumber h s)"
| "Number h (Some (JArr xs)) = ArrayToNumber h xs"
| "Number h (Some (JObj kvs)) =
     (if map_of kvs ''toString'' = None then Inr NaN
      else Inl ''Cannot convert object to primitive value'')"

text \<open>The body of the \<open>try\<close> block: \<open>Inl\<close> is the message of the error it throws.\<close>

definition parse_quote :: "host \<Rightarrow> string \<Rightarrow> string + quote" where
  "parse_quote h data =
     (case JSON_parse h data of
        Inl msg \<Rightarrow> Inl msg
      | Inr json \<Rightarrow>
          (let result = opt_index0 (opt_prop ''result'' (opt_prop ''quoteResponse'' (Some json)))
           in case (if truthy result then result else None) of
                None \<Rightarrow> Inl ''No quote data returned''
              | Some r \<Rightarrow>
                  (case Number h (get_prop ''regularMarketPrice'' r) of
                     Inl msg \<Rightarrow> Inl msg
                   | Inr p \<Rightarrow>
                       (case Number h (get_prop ''regularMarketVolume'' r) of
                          Inl msg \<Rightarrow> Inl msg
                        | Inr v \<Rightarrow> Inr \<lparr> price = p, volume = v, advUsd = js_mul p v \<rparr>))))"

text \<open>\<open>String.prototype.trim\<close> on the code units below 256, and \<open>slice(0, 120)\<close> after it.\<close>

definition is_space :: "char \<Rightarrow> bool" where
  "is_space c = (of_char c \<in> {9, 10, 11, 12, 13, 32, 160 :: nat})"

definition trim :: "string \<Rightarrow> string" where
  "trim s = dropWhile is_space (rev (dropWhile is_space (rev s)))"

definition bodySnippet :: "string \<Rightarrow> string" where
  "bodySnippet data = take 120 (trim data)"

text \<open>The decimal digits of the status code, as a template literal prints them.\<close>

fun decimal :: "nat \<Rightarrow> string" where
  "decimal n =
     (if n < 10 then [char_of (48 + n)]
      else decimal (n div 10) @ [char_of (48 + n mod 10)])"

declare decimal.simps [simp del]

definition http_error_message :: "nat \<Rightarrow> string \<Rightarrow> string" where
  "http_error_message statusCode data =
     ''HTTP '' @ decimal statusCode @ '' when fetching quote: '' @
       (if bodySnippet data = [] then ''No response body'' else bodySnippet data)"

definition simulated_quote :: "Settings \<Rightarrow> quote" where
  "simulated_quote config =
     (let p = simulatedPrice config; v = simulatedVolume config
      in \<lparr> price = p, volume = v, advUsd = js_mul p v \<rparr>)"

fun fetchQuote ::
  "host \<Rightarrow> Settings \<Rightarrow> string \<Rightarrow> nat \<Rightarrow> outcome list \<Rightarrow> (effect list \<times> settled) option"
where
  "fetchQuote h config symbol attempt [] =
     (if simulateMarketData config then Some ([], Resolved (simulated_quote config)) else None)"
| "fetchQuote h config symbol attempt (out # rest) =
     (if simulateMarketData config then Some ([], Resolved (simulated_quote config))
      else
        (case out of
           Response statusCode data \<Rightarrow>
             (if \<not> (200 \<le> statusCode \<and> statusCode < 300) then
                (if js_lt (Fin (of_nat attempt)) (apiRetries config) then
                   (let backoff = js_mul (apiBackoffMs config) (Fin (2 ^ attempt))
                    in case fetchQuote h config symbol (attempt + 1) rest of
                         None \<Rightarrow> None
                       | Some (effs, r) \<Rightarrow> Some (Get symbol # Delay backoff # effs, r))
                 else Some ([Get symbol], Rejected (http_error_message statusCode data)))
              else
                (case parse_quote h data of
                   Inr q \<Rightarrow> Some ([Get symbol], Resolved q)
                 | Inl msg \<Rightarrow>
                     (if js_lt (Fin (of_nat attempt)) (apiRetries config) then
                        (let backoff = js_mul (apiBackoffMs config) (Fin (2 ^ attempt))
                         in case fetchQuote h config symbol (attempt + 1) rest of
                              None \<Rightarrow> None
                            | Some (effs, r) \<Rightarrow> Some (Get symbol # Delay backoff # effs, r))
                      else Some ([Get symbol],
                                 Rejected (''Failed to parse quote response: '' @ msg)))))
         | NetError err \<Rightarrow>
             (if js_lt (Fin (of_nat attempt)) (apiRetries config) then
                (let backoff = js_mul (apiBackoffMs config) (Fin (2 ^ attempt))
                 in case fetchQuote h config symbol (attempt + 1) rest of
                      None \<Rightarrow> None
                    | Some (effs, r) \<Rightarrow> Some (Get symbol # Delay backoff # effs, r))
              else Some ([Get symbol], Rejected err))))"

section \<open>index.js\<close>

record decision =
  action :: string
  symbol :: string
  confidence :: jsnum
  thesis :: string

record order =
  symbol :: string
  side :: string
  qty :: jsnum
  limit :: jsnum
  stop :: jsnum

text \<open>The object \<open>proposeOrder\<close> returns has either an \<open>error\<close> or an \<open>order\<close> field.\<close>

datatype proposal = Error string | Order order

definition proposeOrder :: "Settings \<Rightarrow> decision \<Rightarrow> quote \<Rightarrow> jsnum \<Rightarrow> proposal" where
  "proposeOrder config d q equity =
     (if js_lt (advUsd q) (minAdvUsd config) then Error ''Insufficient liquidity''
      else
        let sharesRisk = riskScaledShares (price q) (Fin (2 / 100)) equity (targetRiskBps config);
            sharesLiq = maxSharesByLiquidity (advUsd q) (price q) (maxPctAdv config);
            shares = Math_min sharesRisk sharesLiq
        in if js_le shares (Fin 0) then Error ''Zero shares after constraints''
           else
             let atr = js_mul (price q) (Fin (2 / 100));
                 stopLevel = computeStop (price q) atr (hardStopPct config) (trailingAtrMult config);
                 limitPrice = js_mul (price q)
                                (js_add (Fin 1) (js_div (slippageBps config) (Fin 10000)))
             in Order \<lparr> symbol = decision.symbol d, side = action d, qty = shares,
                        limit = toFixed4 limitPrice, stop = toFixed4 stopLevel \<rparr>)"

section \<open>Notions used to state the properties\<close>

text \<open>\<open>a === b\<close> on numbers: \<open>NaN\<close> equals nothing, the two zeros are equal.\<close>

definition js_eq :: "jsnum \<Rightarrow> jsnum \<Rightarrow> bool" where
  "js_eq a b = (if is_nan a \<or> is_nan b then False else a = b \<or> (is_zero a \<and> is_zero b))"

text \<open>A number with no fractional part (the special values count as such).\<close>

fun whole :: "jsnum \<Rightarrow> bool" where
  "whole (Fin r) = (r = of_int \<lfloor>r\<rfloor>)"
| "whole _ = True"

text \<open>The delay before the retry that follows attempt number \<open>attempt\<close>.\<close>

definition backoff :: "Settings \<Rightarrow> nat \<Rightarrow> jsnum" where
  "backoff config attempt = js_mul (apiBackoffMs config) (Fin (2 ^ attempt))"

text \<open>
  The effects of \<open>n\<close> failed attempts, the first numbered \<open>a\<close>, each followed by its
  delay, and of one last request.
\<close>

fun retry_trace :: "string \<Rightarrow> Settings \<Rightarrow> nat \<Rightarrow> nat \<Rightarrow> effect list" where
  "retry_trace s config a 0 = [Get s]"
| "retry_trace s config a (Suc n) = Get s # Delay (backoff config a) # retry_trace s config (Suc a) n"

text \<open>The number of requests among the effects, and the delays in their order.\<close>

fun requests :: "effect list \<Rightarrow> nat" where
  "requests [] = 0"
| "requests (Get s # es) = Suc (requests es)"
| "requests (Delay ms # es) = requests es"

fun delays :: "effect list \<Rightarrow> jsnum list" where
  "delays [] = []"
| "delays (Get s # es) = delays es"
| "delays (Delay ms # es) = ms # delays es"

text \<open>
  A failing attempt: a transport error, a status outside 200..299, or a body from which
  the \<open>try\<close> block throws; and the message of the rejection when it is the last one.
\<close>

fun attempt_fails :: "host \<Rightarrow> outcome \<Rightarrow> bool" where
  "attempt_fails h (NetError err) = True"
| "attempt_fails h (Response statusCode data) =
     (if 200 \<le> statusCode \<and> statusCode < 300 then isl (parse_quote h data) else True)"

fun failure_message :: "host \<Rightarrow> outcome \<Rightarrow> string" where
  "failure_message h (NetError err) = err"
| "failure_message h (Response statusCode data) =
     (if 200 \<le> statusCode \<and> statusCode < 300
      then ''Failed to parse quote response: '' @ projl (parse_quote h data)
      else http_error_message statusCode data)"

text \<open>The decision stub of \<open>main\<close>, and the quote of the specification's scenario A.\<close>

definition example_decision :: decision where
  "example_decision = \<lparr> action = ''BUY'', symbol = ''ABC'', confidence = Fin (3 / 4),
     thesis = ''Stub decision for demonstration purposes.'' \<rparr>"

definition scenario_A_quote :: quote where
  "scenario_A_quote = \<lparr> price = Fin 10, volume = Fin 50000, advUsd = Fin 500000 \<rparr>"

text \<open>A runtime that parses three response bodies, used for the concrete runs.\<close>

definition example_host :: host where
  \<open>example_host =
     \<lparr> JSON_parse = (\<lambda>data.
          if data = ''{"quoteResponse":{"result":[null]}}''
            then Inr (JObj [(''quoteResponse'', JObj [(''result'', JArr [JNull])])])
          else if data = ''{"quoteResponse":{"result":[{"regularMarketPrice":{"toString":null}}]}}''
            then Inr (JObj [(''quoteResponse'', JObj [(''result'',
                   JArr [JObj [(''regularMarketPrice'', JObj [(''toString'', JNull)])]])])])
          else if data = ''{"quoteResponse":{"result":[{}]}}''
            then Inr (JObj [(''quoteResponse'', JObj [(''result'', JArr [JObj []])])])
          else Inl ''Unexpected end of JSON input''),
       StringToNumber = (\<lambda>s. NaN),
       ArrayToNumber = (\<lambda>xs. Inr NaN) \<rparr>\<close>

section \<open>Arithmetic on finite numbers\<close>

text \<open>
  On finite operands the operations of the model are the operations on the rationals the
  operands denote, as long as no division by zero occurs. These facts serve the arguments
  by sign and by order below (a risk budget that is not positive, delays that grow).
\<close>

lemma js_mul_fin [simp]:
  "is_fin a \<Longrightarrow> is_fin b \<Longrightarrow> is_fin (js_mul a b)"
  "is_fin a \<Longrightarrow> is_fin b \<Longrightarrow> val (js_mul a b) = val a * val b"
  by (cases a; cases b; auto simp: js_mul_def mk_fin_def)+

lemma js_div_fin [simp]:
  "is_fin a \<Longrightarrow> is_fin b \<Longrightarrow> val b \<noteq> 0 \<Longrightarrow> is_fin (js_div a b)"
  "is_fin a \<Longrightarrow> is_fin b \<Longrightarrow> val b \<noteq> 0 \<Longrightarrow> val (js_div a b) = val a / val b"
  by (cases a; cases b; auto simp: js_div_def mk_fin_def)+

lemma js_add_fin [simp]:
  "is_fin a \<Longrightarrow> is_fin b \<Longrightarrow> is_fin (js_add a b)"
  "is_fin a \<Longrightarrow> is_fin b \<Longrightarrow> val (js_add a b) = val a + val b"
  by (cases a; cases b; auto simp: js_add_def)+

lemma js_neg_fin [simp]:
  "is_fin a \<Longrightarrow> is_fin (js_neg a)"
  "is_fin a \<Longrightarrow> val (js_neg a) = - val a"
  by (cases a; auto)+

lemma js_sub_fin [simp]:
  "is_fin a \<Longrightarrow> is_fin b \<Longrightarrow> is_fin (js_sub a b)"
  "is_fin a \<Longrightarrow> is_fin b \<Longrightarrow> val (js_sub a b) = val a - val b"
  by (simp_all add: js_sub_def)

lemma Math_floor_fin [simp]:
  "is_fin a \<Longrightarrow> is_fin (Math_floor a)"
  "is_fin a \<Longrightarrow> val (Math_floor a) = of_int \<lfloor>val a\<rfloor>"
  by (cases a; auto)+

lemma js_lt_fin: "is_fin a \<Longrightarrow> is_fin b \<Longrightarrow> js_lt a b = (val a < val b)"
  by (cases a; cases b) auto

lemma js_le_fin: "is_fin a \<Longrightarrow> is_fin b \<Longrightarrow> js_le a b = (val a \<le> val b)"
  by (cases a; cases b) auto

lemma Math_max_fin [simp]:
  "is_fin a \<Longrightarrow> is_fin b \<Longrightarrow> is_fin (Math_max a b)"
  "is_fin a \<Longrightarrow> is_fin b \<Longrightarrow> val (Math_max a b) = max (val a) (val b)"
  by (cases a; cases b; auto simp: Math_max_def)+

lemma Math_min_fin [simp]:
  "is_fin a \<Longrightarrow> is_fin b \<Longrightarrow> is_fin (Math_min a b)"
  "is_fin a \<Longrightarrow> is_fin b \<Longrightarrow> val (Math_min a b) = min (val a) (val b)"
  by (cases a; cases b; auto simp: Math_min_def)+


lemma Math_max_ge:
  "\<not> is_nan a \<Longrightarrow> \<not> is_nan b \<Longrightarrow> js_le a (Math_max a b) \<and> js_le b (Math_max a b)"
  by (cases a; cases b) (auto simp: Math_max_def)

lemma js_mul_one: "js_mul a (Fin 1) = a"
  by (cases a) (auto simp: js_mul_def mk_fin_def mk_inf_def)

lemma whole_floor: "whole (Math_floor a)"
  by (cases a) auto

lemma whole_max: "whole a \<Longrightarrow> whole b \<Longrightarrow> whole (Math_max a b)"
  by (cases a; cases b) (auto simp: Math_max_def)

lemma whole_min: "whole a \<Longrightarrow> whole b \<Longrightarrow> whole (Math_min a b)"
  by (cases a; cases b) (auto simp: Math_min_def)

lemma whole_riskScaledShares: "whole (riskScaledShares p v e b)"
  by (simp add: riskScaledShares_def Let_def whole_max whole_floor)

lemma whole_maxSharesByLiquidity: "whole (maxSharesByLiquidity a p m)"
  by (simp add: maxSharesByLiquidity_def Let_def whole_floor)

lemma whole_positive:
  assumes "whole a" "\<not> js_le a (Fin 0)"
  shows "\<not> is_zero a \<and> (is_nan a \<or> js_le (Fin 1) a)"
proof (cases a)
  case (Fin r)
  with assms have r: "r = of_int \<lfloor>r\<rfloor>" and pos: "0 < r" by simp_all
  from pos have "0 < \<lfloor>r\<rfloor>" using r by (metis of_int_0_less_iff)
  then have "1 \<le> \<lfloor>r\<rfloor>" by simp
  then have "1 \<le> r" using r by (metis of_int_1_le_iff)
  with Fin pos show ?thesis by simp
qed (use assms in auto)

lemma Math_min_le:
  "\<not> is_nan (Math_min a b) \<Longrightarrow> js_le (Math_min a b) a \<and> js_le (Math_min a b) b"
  by (cases a; cases b) (auto simp: Math_min_def split: if_splits)

lemma Math_min_positive:
  "\<not> js_le (Math_min a b) (Fin 0) \<Longrightarrow> \<not> is_nan (Math_min a b) \<Longrightarrow>
   \<not> js_le a (Fin 0) \<and> \<not> js_le b (Fin 0)"
  by (cases a; cases b) (auto simp: Math_min_def split: if_splits)

lemma Math_max_zero_positive:
  "\<not> js_le (Math_max (Fin 0) a) (Fin 0) \<Longrightarrow> \<not> is_nan (Math_max (Fin 0) a) \<Longrightarrow>
   Math_max (Fin 0) a = a"
  by (cases a) (auto simp: Math_max_def split: if_splits)

section \<open>The two share counts\<close>



section \<open>Order proposal: the quantity\<close>

lemma proposeOrder_Order_iff:
  "proposeOrder cfg d q equity = Order ord \<longleftrightarrow>
     \<not> js_lt (advUsd q) (minAdvUsd cfg) \<and>
     \<not> js_le (Math_min (riskScaledShares (price q) (Fin (2 / 100)) equity (targetRiskBps cfg))
                        (maxSharesByLiquidity (advUsd q) (price q) (maxPctAdv cfg))) (Fin 0) \<and>
     ord = \<lparr> symbol = decision.symbol d, side = action d,
             qty = Math_min (riskScaledShares (price q) (Fin (2 / 100)) equity (targetRiskBps cfg))
                        (maxSharesByLiquidity (advUsd q) (price q) (maxPctAdv cfg)),
             limit = toFixed4 (js_mul (price q) (js_add (Fin 1) (js_div (slippageBps cfg) (Fin 10000)))),
             stop = toFixed4 (computeStop (price q) (js_mul (price q) (Fin (2 / 100)))
                      (hardStopPct cfg) (trailingAtrMult cfg)) \<rparr>"
  by (auto simp: proposeOrder_def Let_def)

text \<open>
  The quantity is \<open>Math.min\<close> of \<open>Math.max(0, Math.floor(x))\<close> and of either 0 or
  \<open>Math.floor(y)\<close>. What follows about it holds whatever the numbers \<open>x\<close> and \<open>y\<close> are:
  nothing depends on how the products and quotients under the two \<open>Math.floor\<close> are
  computed or rounded.
\<close>

lemma whole_fin_ge_one:
  assumes "whole a" "is_fin a" "js_le (Fin 1) a"
  shows "\<exists>n::nat. 1 \<le> n \<and> a = Fin (of_nat n)"
proof (cases a)
  case (Fin r)
  with assms have r: "r = of_int \<lfloor>r\<rfloor>" and one: "1 \<le> r" by simp_all
  from one have k: "1 \<le> \<lfloor>r\<rfloor>" by (simp add: le_floor_iff)
  then have n: "1 \<le> nat \<lfloor>r\<rfloor>" by linarith
  from k have "of_int \<lfloor>r\<rfloor> = (of_nat (nat \<lfloor>r\<rfloor>) :: rat)" by simp
  with r have "r = of_nat (nat \<lfloor>r\<rfloor>)" by simp
  with n Fin show ?thesis by blast
qed (use assms in auto)

lemma minimum_of_floors:
  assumes pos: "\<not> js_le (Math_min (Math_max (Fin 0) (Math_floor x))
                                   (if g then Fin 0 else Math_floor y)) (Fin 0)"
    and fin: "is_fin (Math_min (Math_max (Fin 0) (Math_floor x))
                               (if g then Fin 0 else Math_floor y))"
  shows "(\<exists>n::nat. 1 \<le> n \<and>
            Math_min (Math_max (Fin 0) (Math_floor x)) (if g then Fin 0 else Math_floor y) =
              Fin (of_nat n)) \<and>
         js_le (Math_min (Math_max (Fin 0) (Math_floor x)) (if g then Fin 0 else Math_floor y))
               (Math_floor y) \<and>
         js_le (Math_min (Math_max (Fin 0) (Math_floor x)) (if g then Fin 0 else Math_floor y))
               (Math_floor x)"
proof -
  define sr where "sr = Math_max (Fin 0) (Math_floor x)"
  define sl where "sl = (if g then Fin 0 else Math_floor y)"
  have nle: "\<not> js_le (Math_min sr sl) (Fin 0)" and f: "is_fin (Math_min sr sl)"
    using pos fin unfolding sr_def sl_def by simp_all
  from f have nn: "\<not> is_nan (Math_min sr sl)" by (cases "Math_min sr sl") auto
  have w: "whole (Math_min sr sl)"
    unfolding sr_def sl_def by (intro whole_min whole_max whole_floor) (simp_all add: whole_floor)
  from whole_positive [OF w nle] nn have one: "js_le (Fin 1) (Math_min sr sl)" by simp
  from Math_min_le [OF nn] have le: "js_le (Math_min sr sl) sr" "js_le (Math_min sr sl) sl"
    by simp_all
  from Math_min_positive [OF nle nn] have p: "\<not> js_le sr (Fin 0)" "\<not> js_le sl (Fin 0)"
    by simp_all
  have sl: "sl = Math_floor y" using p(2) unfolding sl_def by (simp split: if_splits)
  have "\<not> is_nan sr" using le(1) by (cases sr; cases "Math_min sr sl") auto
  then have sr: "sr = Math_floor x"
    using p(1) Math_max_zero_positive unfolding sr_def by simp
  show ?thesis
    using whole_fin_ge_one [OF w f one] le sl sr unfolding sr_def sl_def by simp
qed

text \<open>
  C1, as the source has it. Whenever \<open>proposeOrder\<close> returns an order whose quantity is a
  finite number, the quantity is a positive integer, at most
  \<open>Math.floor(advUsd * maxPctAdv / price)\<close> and at most
  \<open>Math.floor(equity * (targetRiskBps / 10000) / (price * 0.02))\<close>, the two bounds being
  the values the source computes and the daily volatility the constant 0.02 it passes.
\<close>

theorem proposeOrder_quantity_bounds:
  assumes ret: "proposeOrder cfg d q equity = Order ord" and fin: "is_fin (qty ord)"
  shows
    "(\<exists>n::nat. 1 \<le> n \<and> qty ord = Fin (of_nat n)) \<and>
     js_le (qty ord) (Math_floor (js_div (js_mul (advUsd q) (maxPctAdv cfg)) (price q))) \<and>
     js_le (qty ord)
       (Math_floor (js_div (js_mul equity (js_div (targetRiskBps cfg) (Fin 10000)))
                           (js_mul (price q) (Fin (2 / 100)))))"
proof -
  define x where "x = js_div (js_mul equity (js_div (targetRiskBps cfg) (Fin 10000)))
                             (js_mul (price q) (Fin (2 / 100)))"
  define y where "y = js_div (js_mul (advUsd q) (maxPctAdv cfg)) (price q)"
  define g where "g = (falsy (advUsd q) \<or> falsy (price q) \<or> js_le (advUsd q) (Fin 0) \<or>
                       js_le (price q) (Fin 0))"
  have sr: "riskScaledShares (price q) (Fin (2 / 100)) equity (targetRiskBps cfg) =
              Math_max (Fin 0) (Math_floor x)"
    unfolding x_def by (simp add: riskScaledShares_def js_gt_def)
  have sl: "maxSharesByLiquidity (advUsd q) (price q) (maxPctAdv cfg) =
              (if g then Fin 0 else Math_floor y)"
    unfolding y_def g_def by (simp add: maxSharesByLiquidity_def)
  from ret have qty: "qty ord = Math_min (Math_max (Fin 0) (Math_floor x))
                                         (if g then Fin 0 else Math_floor y)"
    and pos: "\<not> js_le (Math_min (Math_max (Fin 0) (Math_floor x))
                                   (if g then Fin 0 else Math_floor y)) (Fin 0)"
    unfolding proposeOrder_Order_iff sr sl by simp_all
  from fin qty have f: "is_fin (Math_min (Math_max (Fin 0) (Math_floor x))
                                        (if g then Fin 0 else Math_floor y))" by simp
  show ?thesis
    using minimum_of_floors [OF pos f] qty unfolding x_def y_def by simp
qed

theorem proposeOrder_quantity_bounds_witness:
  "proposeOrder default_settings example_decision scenario_A_quote (Fin 10000) =
     Order \<lparr> symbol = ''ABC'', side = ''BUY'', qty = Fin 75, limit = Fin (1004 / 100),
             stop = Fin (94 / 10) \<rparr> \<and>
   is_fin (Fin 75) \<and>
   (\<exists>n::nat. 1 \<le> n \<and> Fin 75 = Fin (of_nat n)) \<and>
   js_le (Fin 75) (Math_floor (js_div (js_mul (Fin 500000) (Fin (5 / 100))) (Fin 10))) \<and>
   js_le (Fin 75)
     (Math_floor (js_div (js_mul (Fin 10000) (js_div (Fin 15) (Fin 10000)))
                         (js_mul (Fin 10) (Fin (2 / 100)))))"
proof -
  have r: "proposeOrder default_settings example_decision scenario_A_quote (Fin 10000) =
     Order \<lparr> symbol = ''ABC'', side = ''BUY'', qty = Fin 75, limit = Fin (1004 / 100),
             stop = Fin (94 / 10) \<rparr>"
    by code_simp
  have f: "is_fin (qty \<lparr> symbol = ''ABC'', side = ''BUY'', qty = Fin 75,
                          limit = Fin (1004 / 100), stop = Fin (94 / 10) \<rparr>)"
    by simp
  from proposeOrder_quantity_bounds [OF r f]
  show ?thesis
    using r by (simp add: default_settings_def scenario_A_quote_def)
qed

text \<open>
  The quantity of a returned order need not be a non-negative integer: it is \<open>NaN\<close> for
  the quote \<open>fetchQuote\<close> delivers when the payload has no price, and \<open>Infinity\<close> when the
  average daily volume and the equity are infinite.
\<close>

theorem quantity_not_a_positive_integer:
  "proposeOrder default_settings example_decision
     \<lparr> price = NaN, volume = NaN, advUsd = NaN \<rparr> (Fin 10000) =
     Order \<lparr> symbol = ''ABC'', side = ''BUY'', qty = NaN, limit = NaN, stop = NaN \<rparr> \<and>
   proposeOrder default_settings example_decision
     \<lparr> price = Fin 1, volume = PInf, advUsd = PInf \<rparr> PInf =
     Order \<lparr> symbol = ''ABC'', side = ''BUY'', qty = PInf, limit = Fin (1004 / 1000),
             stop = Fin (94 / 100) \<rparr>"
  by code_simp

text \<open>
  Of what C2 says, the following holds for every input: \<open>Math.min(sharesRisk, sharesLiq) <= 0\<close>
  gives a rejection, the rejection \<open>Zero shares after constraints\<close> once the liquidity
  check is passed (a quote that fails it gets that check's rejection first); and the
  quantity of a returned order is never a zero: it is at least 1, or it is \<open>NaN\<close>.
\<close>

lemma zero_quantity_never_returned:
  "(\<not> js_lt (advUsd q) (minAdvUsd cfg) \<and>
    js_le (Math_min (riskScaledShares (price q) (Fin (2 / 100)) equity (targetRiskBps cfg))
                    (maxSharesByLiquidity (advUsd q) (price q) (maxPctAdv cfg))) (Fin 0) \<longrightarrow>
      proposeOrder cfg d q equity = Error ''Zero shares after constraints'') \<and>
   (js_le (Math_min (riskScaledShares (price q) (Fin (2 / 100)) equity (targetRiskBps cfg))
                    (maxSharesByLiquidity (advUsd q) (price q) (maxPctAdv cfg))) (Fin 0) \<longrightarrow>
      (\<exists>msg. proposeOrder cfg d q equity = Error msg)) \<and>
   (\<forall>ord. proposeOrder cfg d q equity = Order ord \<longrightarrow>
      \<not> is_zero (qty ord) \<and> (is_nan (qty ord) \<or> js_le (Fin 1) (qty ord)))"
proof -
  define shares where
    "shares = Math_min (riskScaledShares (price q) (Fin (2 / 100)) equity (targetRiskBps cfg))
                       (maxSharesByLiquidity (advUsd q) (price q) (maxPctAdv cfg))"
  have w: "whole shares"
    unfolding shares_def by (intro whole_min whole_riskScaledShares whole_maxSharesByLiquidity)
  have a: "\<not> js_lt (advUsd q) (minAdvUsd cfg) \<and> js_le shares (Fin 0) \<longrightarrow>
           proposeOrder cfg d q equity = Error ''Zero shares after constraints''"
    unfolding shares_def by (simp add: proposeOrder_def Let_def)
  have b: "js_le shares (Fin 0) \<longrightarrow> (\<exists>msg. proposeOrder cfg d q equity = Error msg)"
    unfolding shares_def by (simp add: proposeOrder_def Let_def)
  have c: "\<not> is_zero (qty ord) \<and> (is_nan (qty ord) \<or> js_le (Fin 1) (qty ord))"
    if ret: "proposeOrder cfg d q equity = Order ord" for ord
  proof -
    from ret have q: "qty ord = shares" and nle: "\<not> js_le shares (Fin 0)"
      unfolding shares_def by (simp_all add: proposeOrder_Order_iff)
    show ?thesis using q whole_positive [OF w nle] by simp
  qed
  show ?thesis using a b c unfolding shares_def by blast
qed

text \<open>
  C2. Not every returned order has a quantity of at least 1. With an equity that is \<open>NaN\<close>
  (what \<open>parseFloat\<close> makes of an \<open>EQUITY\<close> that is no number), the default settings and
  the quote of scenario A, \<open>sharesRisk\<close> is \<open>NaN\<close>, so is \<open>Math.min(sharesRisk, sharesLiq)\<close>,
  \<open>NaN <= 0\<close> is false, and \<open>proposeOrder\<close> returns an order whose quantity is \<open>NaN\<close>.
\<close>

theorem NaN_equity_order_with_NaN_quantity:
  "proposeOrder default_settings d \<lparr> price = Fin 10, volume = Fin 50000, advUsd = Fin 500000 \<rparr> NaN =
     Order \<lparr> symbol = decision.symbol d, side = action d, qty = NaN, limit = Fin (1004 / 100),
             stop = Fin (94 / 10) \<rparr>"
  by code_simp

text \<open>
  C5. Scenario A: with \<open>targetRiskBps = 15\<close>, \<open>maxPctAdv = 0.05\<close> and \<open>minAdvUsd = 100000\<close>
  (whatever the other settings), a price of 10, an average daily volume of 500000 USD and
  an equity of 10000, the risk-scaled share count is 75, the liquidity cap is 2500 and
  \<open>proposeOrder\<close> returns an order of quantity 75.
\<close>

theorem scenario_A_quantity:
  assumes "targetRiskBps cfg = Fin 15" "maxPctAdv cfg = Fin (5 / 100)" "minAdvUsd cfg = Fin 100000"
  shows "riskScaledShares (Fin 10) (Fin (2 / 100)) (Fin 10000) (targetRiskBps cfg) = Fin 75 \<and>
         maxSharesByLiquidity (Fin 500000) (Fin 10) (maxPctAdv cfg) = Fin 2500 \<and>
         (\<exists>ord. proposeOrder cfg d \<lparr> price = Fin 10, volume = v, advUsd = Fin 500000 \<rparr> (Fin 10000)
                  = Order ord \<and> qty ord = Fin 75)"
proof -
  have sr: "riskScaledShares (Fin 10) (Fin (2 / 100)) (Fin 10000) (Fin 15) = Fin 75"
    by code_simp
  have sl: "maxSharesByLiquidity (Fin 500000) (Fin 10) (Fin (5 / 100)) = Fin 2500"
    by code_simp
  have mn: "Math_min (Fin 75) (Fin 2500) = Fin 75" by code_simp
  show ?thesis
    using assms sr sl mn by (simp add: proposeOrder_def Let_def)
qed

theorem scenario_A_quantity_witness:
  "riskScaledShares (Fin 10) (Fin (2 / 100)) (Fin 10000) (Fin 15) = Fin 75 \<and>
   maxSharesByLiquidity (Fin 500000) (Fin 10) (Fin (5 / 100)) = Fin 2500 \<and>
   (\<exists>ord. proposeOrder default_settings example_decision scenario_A_quote (Fin 10000) = Order ord \<and>
          qty ord = Fin 75)"
  using scenario_A_quantity [of default_settings example_decision "Fin 50000"]
  by (simp add: default_settings_def scenario_A_quote_def)



subsection \<open>A price that is not positive\<close>

text \<open>
  \<open>proposeOrder\<close> does not look at the price before sizing. With a price \<open>p \<le> 0\<close> past
  the liquidity check, \<open>riskScaledShares\<close> divides by \<open>p * 0.02\<close> first; the liquidity cap is
  0, so the result is the rejection \<open>Zero shares after constraints\<close> unless the risk-scaled
  count is \<open>NaN\<close>, and then an order of quantity \<open>NaN\<close> is returned.
\<close>

lemma nonpositive_price_outcome:
  assumes "js_le (price q) (Fin 0)" "\<not> js_lt (advUsd q) (minAdvUsd cfg)"
  shows "proposeOrder cfg d q equity = Error ''Zero shares after constraints'' \<or>
         (is_nan (riskScaledShares (price q) (Fin (2 / 100)) equity (targetRiskBps cfg)) \<and>
          (\<exists>ord. proposeOrder cfg d q equity = Order ord \<and> qty ord = NaN))"
proof -
  define sr where "sr = riskScaledShares (price q) (Fin (2 / 100)) equity (targetRiskBps cfg)"
  have sl: "maxSharesByLiquidity (advUsd q) (price q) (maxPctAdv cfg) = Fin 0"
    using assms(1) by (simp add: maxSharesByLiquidity_def)
  have "Math_min sr (Fin 0) = NaN \<and> is_nan sr \<or> js_le (Math_min sr (Fin 0)) (Fin 0)"
    by (cases sr) (auto simp: Math_min_def)
  then show ?thesis
    using assms(2) sl unfolding sr_def by (auto simp: proposeOrder_def Let_def)
qed

text \<open>
  C4. A price \<open>p \<le> 0\<close> is not rejected before the division by the price. With a price
  of 0 and an equity of 0 (default settings, the quote past the liquidity check with an
  average daily volume of 100000, or with the \<open>NaN\<close> volume \<open>fetchQuote\<close> delivers when
  the payload has no volume), the division \<open>0 / 0\<close> is carried out and \<open>proposeOrder\<close>
  returns an order whose quantity is \<open>NaN\<close>, not a rejection.
\<close>

theorem zero_price_order_with_NaN_quantity:
  "proposeOrder default_settings d \<lparr> price = Fin 0, volume = v, advUsd = Fin 100000 \<rparr> (Fin 0) =
     Order \<lparr> symbol = decision.symbol d, side = action d, qty = NaN, limit = Fin 0, stop = Fin 0 \<rparr> \<and>
   proposeOrder default_settings d \<lparr> price = Fin 0, volume = NaN, advUsd = NaN \<rparr> (Fin 0) =
     Order \<lparr> symbol = decision.symbol d, side = action d, qty = NaN, limit = Fin 0, stop = Fin 0 \<rparr>"
  by code_simp

section \<open>Stops and exits\<close>

text \<open>
  C6. \<open>computeStop\<close> is \<open>Math.max\<close> of the hard stop \<open>entry * (1 - hardStopPct)\<close> and the
  trailing stop \<open>entry - trailingMult * atr\<close>, as the source computes the two. When
  neither is \<open>NaN\<close> the result is at least the hard stop and at least the trailing stop.
\<close>

theorem computeStop_is_max:
  "computeStop entry atr h t =
     Math_max (js_mul entry (js_sub (Fin 1) h)) (js_sub entry (js_mul t atr)) \<and>
   (\<not> is_nan (js_mul entry (js_sub (Fin 1) h)) \<and> \<not> is_nan (js_sub entry (js_mul t atr)) \<longrightarrow>
      js_ge (computeStop entry atr h t) (js_mul entry (js_sub (Fin 1) h)) \<and>
      js_ge (computeStop entry atr h t) (js_sub entry (js_mul t atr)))"
  using Math_max_ge [of "js_mul entry (js_sub (Fin 1) h)" "js_sub entry (js_mul t atr)"]
  by (simp add: computeStop_def js_ge_def)

theorem computeStop_is_max_witness:
  "\<not> is_nan (js_mul (Fin 8) (js_sub (Fin 1) (Fin (1 / 8)))) \<and>
   \<not> is_nan (js_sub (Fin 8) (js_mul (Fin 3) (Fin (1 / 4)))) \<and>
   js_ge (computeStop (Fin 8) (Fin (1 / 4)) (Fin (1 / 8)) (Fin 3))
     (js_mul (Fin 8) (js_sub (Fin 1) (Fin (1 / 8)))) \<and>
   js_ge (computeStop (Fin 8) (Fin (1 / 4)) (Fin (1 / 8)) (Fin 3))
     (js_sub (Fin 8) (js_mul (Fin 3) (Fin (1 / 4))))"
proof -
  have n: "\<not> is_nan (js_mul (Fin 8) (js_sub (Fin 1) (Fin (1 / 8)))) \<and>
           \<not> is_nan (js_sub (Fin 8) (js_mul (Fin 3) (Fin (1 / 4))))"
    by code_simp
  from mp [OF conjunct2 [OF computeStop_is_max] n] n
  show ?thesis by blast
qed

text \<open>
  C8. \<open>shouldExit\<close> is true exactly when \<open>last <= stopLevel\<close> or
  \<open>holdingDays >= timeStopDays\<close> (JavaScript's comparisons; on finite numbers, the order
  of the rationals). When \<open>last\<close> equals \<open>stopLevel\<close> it is true: the boundary is
  inclusive.
\<close>

theorem shouldExit_iff:
  "(shouldExit l s h t \<longleftrightarrow> js_le l s \<or> js_ge h t) \<and>
   (is_fin l \<and> is_fin s \<and> is_fin h \<and> is_fin t \<longrightarrow>
      (shouldExit l s h t \<longleftrightarrow> val l \<le> val s \<or> val t \<le> val h)) \<and>
   (js_eq l s \<longrightarrow> shouldExit l s h t)"
proof -
  have "js_eq l s \<Longrightarrow> js_le l s"
    by (cases l; cases s) (auto simp: js_eq_def split: if_splits)
  then show ?thesis
    by (auto simp: shouldExit_def js_ge_def js_le_fin)
qed

theorem shouldExit_iff_witness:
  "shouldExit (Fin (94 / 10)) (Fin (94 / 10)) (Fin 0) (Fin 5) \<and>
   js_eq (Fin (94 / 10)) (Fin (94 / 10)) \<and>
   \<not> shouldExit (Fin 10) (Fin (94 / 10)) (Fin 4) (Fin 5) \<and>
   shouldExit (Fin 10) (Fin (94 / 10)) (Fin 5) (Fin 5)"
proof -
  have e: "js_eq (Fin (94 / 10)) (Fin (94 / 10))" by (simp add: js_eq_def)
  show ?thesis
    using e shouldExit_iff [of "Fin (94 / 10)" "Fin (94 / 10)" "Fin 0" "Fin 5"]
      shouldExit_iff [of "Fin 10" "Fin (94 / 10)" "Fin 4" "Fin 5"]
      shouldExit_iff [of "Fin 10" "Fin (94 / 10)" "Fin 5" "Fin 5"]
    by (simp add: js_ge_def)
qed

section \<open>Settings the proposal does not read\<close>

text \<open>
  C10. The result of \<open>proposeOrder\<close> does not depend on the settings \<open>maxPositionWeight\<close>
  and \<open>minPrice\<close> nor on the decision's \<open>confidence\<close>: changing the three changes nothing.
\<close>

theorem proposeOrder_ignores_unused_settings:
  "proposeOrder (config\<lparr> maxPositionWeight := w, minPrice := m \<rparr>) (d\<lparr> confidence := c \<rparr>) q equity =
   proposeOrder config d q equity"
  by (simp add: proposeOrder_def Let_def)

section \<open>Quote fetching: retries and back-off\<close>

lemma fetchQuote_failed_attempt:
  assumes "\<not> simulateMarketData cfg" "attempt_fails h out"
  shows "fetchQuote h cfg s a (out # rest) =
     (if js_lt (Fin (of_nat a)) (apiRetries cfg) then
        (case fetchQuote h cfg s (Suc a) rest of
           None \<Rightarrow> None
         | Some (effs, r) \<Rightarrow> Some (Get s # Delay (backoff cfg a) # effs, r))
      else Some ([Get s], Rejected (failure_message h out)))"
  using assms unfolding backoff_def by (cases out) (auto simp: Let_def split: sum.splits)

lemma fetchQuote_good_attempt:
  assumes "\<not> simulateMarketData cfg" "\<not> attempt_fails h out"
  shows "\<exists>q. fetchQuote h cfg s a (out # rest) = Some ([Get s], Resolved q)"
  using assms by (cases out) (auto split: sum.splits if_splits)

lemma fetchQuote_all_fail:
  assumes "\<not> simulateMarketData cfg" "apiRetries cfg = Fin (of_nat R)"
  shows "a + n = R \<Longrightarrow> n < length outs \<Longrightarrow> list_all (attempt_fails h) (take (Suc n) outs) \<Longrightarrow>
         fetchQuote h cfg s a outs =
           Some (retry_trace s cfg a n, Rejected (failure_message h (outs ! n)))"
proof (induction n arbitrary: a outs)
  case 0
  then obtain out rest where o: "outs = out # rest" by (cases outs) auto
  with 0 have f: "attempt_fails h out" by simp
  have "\<not> js_lt (Fin (of_nat a)) (apiRetries cfg)" using 0 assms(2) by simp
  then show ?case using fetchQuote_failed_attempt [OF assms(1) f] o by simp
next
  case (Suc n)
  then obtain out rest where o: "outs = out # rest" by (cases outs) auto
  with Suc.prems have f: "attempt_fails h out" and r: "list_all (attempt_fails h) (take (Suc n) rest)"
    and l: "n < length rest" by simp_all
  have lt: "js_lt (Fin (of_nat a)) (apiRetries cfg)" using Suc.prems(1) assms(2) by auto
  have "Suc a + n = R" using Suc.prems(1) by simp
  from Suc.IH [OF this l r]
  show ?case using fetchQuote_failed_attempt [OF assms(1) f] o lt by simp
qed

lemma fetchQuote_trace:
  assumes "\<not> simulateMarketData cfg" "apiRetries cfg = Fin (of_nat R)"
  shows "fetchQuote h cfg s a outs = Some (effs, r) \<Longrightarrow> a \<le> R \<Longrightarrow>
         \<exists>n. a + n \<le> R \<and> effs = retry_trace s cfg a n"
proof (induction outs arbitrary: a effs r)
  case Nil
  then show ?case using assms(1) by simp
next
  case (Cons out rest)
  show ?case
  proof (cases "attempt_fails h out")
    case False
    from fetchQuote_good_attempt [OF assms(1) False, of s a rest] Cons.prems
    have "effs = retry_trace s cfg a 0" by auto
    then show ?thesis using Cons.prems(2) by (intro exI [of _ 0]) simp
  next
    case True
    note step = fetchQuote_failed_attempt [OF assms(1) True, of s a rest]
    show ?thesis
    proof (cases "js_lt (Fin (of_nat a)) (apiRetries cfg)")
      case False
      with step Cons.prems have "effs = retry_trace s cfg a 0" by simp
      then show ?thesis using Cons.prems(2) by (intro exI [of _ 0]) simp
    next
      case lt: True
      then have less: "a < R" using assms(2) by simp
      from step lt Cons.prems(1) obtain effs' where
        rec: "fetchQuote h cfg s (Suc a) rest = Some (effs', r)"
        and e: "effs = Get s # Delay (backoff cfg a) # effs'"
        by (auto split: option.splits)
      from Cons.IH [OF rec] less obtain n where
        n: "Suc a + n \<le> R" "effs' = retry_trace s cfg (Suc a) n" by auto
      then show ?thesis using e by (intro exI [of _ "Suc n"]) simp
    qed
  qed
qed

lemma requests_retry_trace: "requests (retry_trace s cfg a n) = Suc n"
  by (induction n arbitrary: a) simp_all

lemma delays_retry_trace: "delays (retry_trace s cfg a n) = map (backoff cfg) [a..<a + n]"
  by (induction n arbitrary: a) (simp_all add: upt_rec)

lemma backoff_doubles: "backoff cfg (Suc k) = js_mul (Fin 2) (backoff cfg k)"
  by (cases "apiBackoffMs cfg") (auto simp: backoff_def js_mul_def mk_fin_def mk_inf_def)

lemma backoff_increases:
  assumes "is_fin (apiBackoffMs cfg)" "0 < val (apiBackoffMs cfg)"
  shows "js_lt (backoff cfg k) (backoff cfg (Suc k))"
  using assms by (simp add: backoff_def js_lt_fin)

lemma length_bodySnippet: "length (bodySnippet data) \<le> 120"
  by (simp add: bodySnippet_def)

lemma decimal_429: "decimal 429 = ''429''"
  by code_simp

text \<open>
  C3. Outside simulation mode and with \<open>apiRetries = R\<close>, a call of \<open>fetchQuote\<close> that
  settles has performed, for some \<open>n \<le> R\<close>, \<open>n\<close> failed requests each followed by its
  delay and one last request: at most \<open>R + 1\<close> requests. When the first \<open>R + 1\<close> outcomes
  all fail it settles after exactly \<open>R + 1\<close> requests, rejecting with the failure of the
  last. The delay after attempt \<open>k\<close> is \<open>apiBackoffMs * 2^k\<close>, twice the delay before it
  (and larger, for a positive \<open>apiBackoffMs\<close>).
  With \<open>R = 3\<close> and every response a 429: four requests, the delays \<open>B\<close>, \<open>2B\<close>, \<open>4B\<close>,
  and the rejection \<open>HTTP 429 when fetching quote:\<close> followed by the body snippet, of at
  most 120 characters (or by \<open>No response body\<close>).
\<close>

theorem fetchQuote_attempts_and_backoff:
  assumes sim: "\<not> simulateMarketData cfg" and R: "apiRetries cfg = Fin (of_nat R)"
  shows
    "(\<forall>outs effs r. fetchQuote h cfg s 0 outs = Some (effs, r) \<longrightarrow>
        requests effs \<le> R + 1 \<and> (\<exists>n\<le>R. effs = retry_trace s cfg 0 n)) \<and>
     (\<forall>outs. R < length outs \<and> list_all (attempt_fails h) (take (R + 1) outs) \<longrightarrow>
        fetchQuote h cfg s 0 outs =
          Some (retry_trace s cfg 0 R, Rejected (failure_message h (outs ! R)))) \<and>
     (\<forall>n. requests (retry_trace s cfg 0 n) = n + 1 \<and>
          delays (retry_trace s cfg 0 n) = map (backoff cfg) [0..<n]) \<and>
     (\<forall>k. backoff cfg k = js_mul (apiBackoffMs cfg) (Fin (2 ^ k)) \<and>
          backoff cfg (Suc k) = js_mul (Fin 2) (backoff cfg k)) \<and>
     (is_fin (apiBackoffMs cfg) \<and> 0 < val (apiBackoffMs cfg) \<longrightarrow>
        (\<forall>k. js_lt (backoff cfg k) (backoff cfg (Suc k)))) \<and>
     (R = 3 \<longrightarrow> (\<forall>body n. 4 \<le> n \<longrightarrow>
        fetchQuote h cfg s 0 (replicate n (Response 429 body)) =
          Some ([Get s, Delay (apiBackoffMs cfg),
                 Get s, Delay (js_mul (apiBackoffMs cfg) (Fin 2)),
                 Get s, Delay (js_mul (apiBackoffMs cfg) (Fin 4)),
                 Get s],
                Rejected (''HTTP 429 when fetching quote: '' @
                  (if bodySnippet body = [] then ''No response body'' else bodySnippet body))) \<and>
        length (bodySnippet body) \<le> 120))"
proof -
  have a: "requests effs \<le> R + 1 \<and> (\<exists>n\<le>R. effs = retry_trace s cfg 0 n)"
    if "fetchQuote h cfg s 0 outs = Some (effs, r)" for outs effs r
  proof -
    from fetchQuote_trace [OF sim R that] obtain n where
      n: "n \<le> R" "effs = retry_trace s cfg 0 n" by auto
    then show ?thesis by (auto simp: requests_retry_trace)
  qed
  have b: "fetchQuote h cfg s 0 outs =
             Some (retry_trace s cfg 0 R, Rejected (failure_message h (outs ! R)))"
    if "R < length outs \<and> list_all (attempt_fails h) (take (R + 1) outs)" for outs
    using fetchQuote_all_fail [OF sim R, of 0 R outs h s] that by simp
  have c: "requests (retry_trace s cfg 0 n) = n + 1 \<and>
           delays (retry_trace s cfg 0 n) = map (backoff cfg) [0..<n]" for n
    by (simp add: requests_retry_trace delays_retry_trace)
  have d: "backoff cfg k = js_mul (apiBackoffMs cfg) (Fin (2 ^ k)) \<and>
           backoff cfg (Suc k) = js_mul (Fin 2) (backoff cfg k)" for k
    using backoff_doubles by (simp add: backoff_def)
  have i: "is_fin (apiBackoffMs cfg) \<and> 0 < val (apiBackoffMs cfg) \<longrightarrow>
           (\<forall>k. js_lt (backoff cfg k) (backoff cfg (Suc k)))"
    using backoff_increases by blast
  have e: "fetchQuote h cfg s 0 (replicate n (Response 429 body)) =
          Some ([Get s, Delay (apiBackoffMs cfg),
                 Get s, Delay (js_mul (apiBackoffMs cfg) (Fin 2)),
                 Get s, Delay (js_mul (apiBackoffMs cfg) (Fin 4)),
                 Get s],
                Rejected (''HTTP 429 when fetching quote: '' @
                  (if bodySnippet body = [] then ''No response body'' else bodySnippet body))) \<and>
        length (bodySnippet body) \<le> 120"
    if R3: "R = 3" and n: "4 \<le> n" for body n
  proof -
    have f: "list_all (attempt_fails h) (take (R + 1) (replicate n (Response 429 body)))"
      by (simp add: list_all_iff)
    have t: "retry_trace s cfg 0 3 =
               [Get s, Delay (apiBackoffMs cfg),
                Get s, Delay (js_mul (apiBackoffMs cfg) (Fin 2)),
                Get s, Delay (js_mul (apiBackoffMs cfg) (Fin 4)),
                Get s]"
      by (simp add: numeral_3_eq_3 backoff_def js_mul_one)
    have m: "failure_message h (replicate n (Response 429 body) ! 3) =
               ''HTTP 429 when fetching quote: '' @
                  (if bodySnippet body = [] then ''No response body'' else bodySnippet body)"
      using n by (simp add: http_error_message_def decimal_429 del: decimal.simps)
    show ?thesis
      using b [of "replicate n (Response 429 body)"] f n R3 t m
      by (simp add: length_bodySnippet)
  qed
  show ?thesis using a b c d i e by blast
qed

theorem fetchQuote_attempts_and_backoff_witness:
  "\<not> simulateMarketData default_settings \<and>
   apiRetries default_settings = Fin (of_nat 3) \<and>
   fetchQuote example_host default_settings ''ABC'' 0 (replicate 4 (Response 429 ''Too Many Requests'')) =
     Some ([Get ''ABC'', Delay (Fin 500), Get ''ABC'', Delay (Fin 1000), Get ''ABC'',
            Delay (Fin 2000), Get ''ABC''],
           Rejected ''HTTP 429 when fetching quote: Too Many Requests'')"
proof -
  have h: "\<not> simulateMarketData default_settings"
    "apiRetries default_settings = Fin (of_nat 3)"
    by (simp_all add: default_settings_def)
  have b: "bodySnippet ''Too Many Requests'' = ''Too Many Requests''"
    by code_simp
  have d: "apiBackoffMs default_settings = Fin 500"
    "js_mul (Fin 500) (Fin 2) = Fin 1000" "js_mul (Fin 500) (Fin 4) = Fin 2000"
    by (simp_all add: default_settings_def js_mul_def mk_fin_def)
  from fetchQuote_attempts_and_backoff [OF h, of example_host "''ABC''"]
  have "fetchQuote example_host default_settings ''ABC'' 0
          (replicate 4 (Response 429 ''Too Many Requests'')) =
        Some ([Get ''ABC'', Delay (apiBackoffMs default_settings),
               Get ''ABC'', Delay (js_mul (apiBackoffMs default_settings) (Fin 2)),
               Get ''ABC'', Delay (js_mul (apiBackoffMs default_settings) (Fin 4)),
               Get ''ABC''],
              Rejected (''HTTP 429 when fetching quote: '' @
                (if bodySnippet ''Too Many Requests'' = [] then ''No response body''
                 else bodySnippet ''Too Many Requests'')))"
    by simp
  then show ?thesis using h b d by simp
qed

section \<open>Quote fetching: what a parsed payload must have\<close>

text \<open>
  C9, as the source has it. For a response with a status in 200..299 whose body parses
  and whose \<open>quoteResponse.result[0]\<close> is truthy (any object is), \<open>fetchQuote\<close> resolves
  at once with \<open>price = Number(result.regularMarketPrice)\<close>,
  \<open>volume = Number(result.regularMarketVolume)\<close> and their product, whenever the two
  conversions return; no check of the numbers is made. In particular a result object
  with neither field resolves with a quote whose three numbers are \<open>NaN\<close>.
\<close>

theorem fetchQuote_resolves_unvalidated:
  assumes sim: "\<not> simulateMarketData cfg"
    and ok: "200 \<le> statusCode" "statusCode < 300"
    and parsed: "JSON_parse h body = Inr j"
    and first: "opt_index0 (opt_prop ''result'' (opt_prop ''quoteResponse'' (Some j))) = Some r"
      "truthy (Some r)"
  shows
    "(\<forall>p v. Number h (get_prop ''regularMarketPrice'' r) = Inr p \<and>
            Number h (get_prop ''regularMarketVolume'' r) = Inr v \<longrightarrow>
        fetchQuote h cfg s a (Response statusCode body # rest) =
          Some ([Get s], Resolved \<lparr> price = p, volume = v, advUsd = js_mul p v \<rparr>)) \<and>
     (get_prop ''regularMarketPrice'' r = None \<and> get_prop ''regularMarketVolume'' r = None \<longrightarrow>
        fetchQuote h cfg s a (Response statusCode body # rest) =
          Some ([Get s], Resolved \<lparr> price = NaN, volume = NaN, advUsd = NaN \<rparr>))"
proof -
  have g: "fetchQuote h cfg s a (Response statusCode body # rest) =
          Some ([Get s], Resolved \<lparr> price = p, volume = v, advUsd = js_mul p v \<rparr>)"
    if "Number h (get_prop ''regularMarketPrice'' r) = Inr p"
      "Number h (get_prop ''regularMarketVolume'' r) = Inr v" for p v
  proof -
    have "parse_quote h body = Inr \<lparr> price = p, volume = v, advUsd = js_mul p v \<rparr>"
      using parsed first that by (simp add: parse_quote_def)
    then show ?thesis using sim ok by simp
  qed
  have n: "js_mul NaN NaN = NaN" by (simp add: js_mul_def)
  show ?thesis using g [of NaN NaN] g n by auto
qed

theorem fetchQuote_resolves_unvalidated_witness:
  \<open>fetchQuote example_host default_settings ''ABC'' 0
      [Response 200 ''{"quoteResponse":{"result":[{}]}}''] =
     Some ([Get ''ABC''], Resolved \<lparr> price = NaN, volume = NaN, advUsd = NaN \<rparr>)\<close>
proof -
  have h: "\<not> simulateMarketData default_settings" "(200::nat) \<le> 200" "(200::nat) < 300"
    \<open>JSON_parse example_host ''{"quoteResponse":{"result":[{}]}}'' =
       Inr (JObj [(''quoteResponse'', JObj [(''result'', JArr [JObj []])])])\<close>
    "opt_index0 (opt_prop ''result'' (opt_prop ''quoteResponse''
       (Some (JObj [(''quoteResponse'', JObj [(''result'', JArr [JObj []])])])))) = Some (JObj [])"
    "truthy (Some (JObj []))"
    by (simp_all add: default_settings_def example_host_def opt_prop_def opt_index0_def)
  have n: "get_prop ''regularMarketPrice'' (JObj []) = None \<and>
           get_prop ''regularMarketVolume'' (JObj []) = None"
    by simp
  show ?thesis
    by (rule mp [OF conjunct2 [OF fetchQuote_resolves_unvalidated [OF h]] n])
qed

text \<open>
  One element in \<open>quoteResponse.result\<close> is not enough for a success: an element that
  is falsy (\<open>null\<close>) and a field whose conversion throws (an object with an own
  \<open>toString\<close> property) both end, after the retries, in a parse failure.
\<close>

theorem fetchQuote_element_not_resolved:
  \<open>fetchQuote example_host default_settings ''ABC'' 0
      (replicate 4 (Response 200 ''{"quoteResponse":{"result":[null]}}'')) =
     Some ([Get ''ABC'', Delay (Fin 500), Get ''ABC'', Delay (Fin 1000), Get ''ABC'',
            Delay (Fin 2000), Get ''ABC''],
           Rejected ''Failed to parse quote response: No quote data returned'') \<and>
   fetchQuote example_host default_settings ''ABC'' 0
      (replicate 4 (Response 200
         ''{"quoteResponse":{"result":[{"regularMarketPrice":{"toString":null}}]}}'')) =
     Some ([Get ''ABC'', Delay (Fin 500), Get ''ABC'', Delay (Fin 1000), Get ''ABC'',
            Delay (Fin 2000), Get ''ABC''],
           Rejected ''Failed to parse quote response: Cannot convert object to primitive value'')\<close>
  by code_simp

text \<open>
  Such a quote passes the liquidity check (\<open>NaN < minAdvUsd\<close> is false) and the sizing check
  (\<open>NaN <= 0\<close> is false): whatever the settings and the equity, \<open>proposeOrder\<close> returns an
  order whose quantity, limit and stop are \<open>NaN\<close>.
\<close>

lemma proposeOrder_NaN_quote:
  "proposeOrder cfg d \<lparr> price = NaN, volume = v, advUsd = NaN \<rparr> equity =
     Order \<lparr> symbol = decision.symbol d, side = action d, qty = NaN, limit = NaN, stop = NaN \<rparr>"
  by (simp add: proposeOrder_def riskScaledShares_def maxSharesByLiquidity_def computeStop_def
      js_mul_def js_div_def Math_max_def Math_min_def falsy_def Let_def)

end
